theory Spec2Isabelle
  imports Main
begin

section \<open>Python strings\<close>

text \<open>
  A Python \<^verbatim>\<open>str\<close> is a sequence of Unicode code points, so a string is modelled as
  a list of code points (natural numbers). \<open>ascii\<close> reads an ASCII literal, whose
  bytes are its code points.
\<close>

type_synonym pystr = "nat list"

definition ascii :: "string \<Rightarrow> pystr" where
  "ascii s = map of_char s"

datatype py_error = ValueError | IndexError | KeyError | UnicodeEncodeError

text \<open>
  \<^verbatim>\<open>str.isspace\<close> on one code point: the whitespace table of CPython, which
  \<^verbatim>\<open>str.strip()\<close> without argument uses.
\<close>

definition isspace :: "nat \<Rightarrow> bool" where
  "isspace c \<longleftrightarrow>
     (9 \<le> c \<and> c \<le> 13) \<or> (28 \<le> c \<and> c \<le> 32) \<or> c = 133 \<or> c = 160 \<or> c = 5760 \<or>
     (8192 \<le> c \<and> c \<le> 8202) \<or> c = 8232 \<or> c = 8233 \<or> c = 8239 \<or> c = 8287 \<or>
     c = 12288"

definition py_strip :: "pystr \<Rightarrow> pystr" where
  "py_strip s = rev (dropWhile isspace (rev (dropWhile isspace s)))"

fun startswith :: "pystr \<Rightarrow> pystr \<Rightarrow> bool" where
  "startswith s [] = True"
| "startswith [] (p # ps) = False"
| "startswith (c # cs) (p # ps) = (c = p \<and> startswith cs ps)"

definition endswith :: "pystr \<Rightarrow> pystr \<Rightarrow> bool" where
  "endswith s p = startswith (rev s) (rev p)"

text \<open>\<^verbatim>\<open>sub in s\<close>: \<open>sub\<close> occurs in \<open>s\<close> as a contiguous substring.\<close>

fun py_in :: "pystr \<Rightarrow> pystr \<Rightarrow> bool" where
  "py_in sub [] = (sub = [])"
| "py_in sub (c # cs) = (startswith (c # cs) sub \<or> py_in sub cs)"

text \<open>
  \<^verbatim>\<open>s.split(sep)\<close> for a non-empty separator: the fields between the occurrences of
  \<open>sep\<close>, scanned from the left; there is always at least one field.
\<close>

function split_fields :: "pystr \<Rightarrow> pystr \<Rightarrow> pystr list" where
  "split_fields sep [] = [[]]"
| "split_fields sep (c # cs) =
     (if sep \<noteq> [] \<and> startswith (c # cs) sep
      then [] # split_fields sep (drop (length sep) (c # cs))
      else (case split_fields sep cs of
              [] \<Rightarrow> [[c]]
            | f # fs \<Rightarrow> (c # f) # fs))"
  by pat_completeness auto
termination
  by (relation "measure (\<lambda>(sep, s). length s)") (auto simp: neq_Nil_conv)

text \<open>\<^verbatim>\<open>s.split(sep)\<close> raises ValueError on the empty separator.\<close>

definition py_split :: "pystr \<Rightarrow> pystr \<Rightarrow> py_error + pystr list" where
  "py_split s sep = (if sep = [] then Inl ValueError else Inr (split_fields sep s))"

text \<open>\<^verbatim>\<open>sep.join(xs)\<close>.\<close>

fun py_join :: "pystr \<Rightarrow> pystr list \<Rightarrow> pystr" where
  "py_join sep [] = []"
| "py_join sep [x] = x"
| "py_join sep (x # y # ys) = x @ sep @ py_join sep (y # ys)"

text \<open>\<^verbatim>\<open>xs[i]\<close> for a literal index \<open>i \<ge> 0\<close>: IndexError out of range.\<close>

definition getitem :: "'a list \<Rightarrow> nat \<Rightarrow> py_error + 'a" where
  "getitem xs i = (if i < length xs then Inr (xs ! i) else Inl IndexError)"

definition and_then :: "'e + 'a \<Rightarrow> ('a \<Rightarrow> 'e + 'b) \<Rightarrow> 'e + 'b" where
  "and_then r f = (case r of Inl e \<Rightarrow> Inl e | Inr x \<Rightarrow> f x)"

section \<open>String constants of the program\<close>

definition newline :: pystr where
  "newline = [10]"

definition delimiter :: pystr where
  "delimiter = [124]"

text \<open>The four column names of the result table, as code points.\<close>

definition key_question :: pystr where
  "key_question = [22823, 32434, 38382, 39064]"

definition key_summary :: pystr where
  "key_summary = [21305, 37197, 20869, 23481, 25688, 35201]"

definition key_coverage :: pystr where
  "key_coverage = [35206, 30422, 24773, 20917]"

definition key_followup :: pystr where
  "key_followup = [24314, 35758, 34917, 38382]"

text \<open>The follow-up placeholder (U+65E0) and the two coverage labels that are counted.\<close>

definition no_followup :: pystr where
  "no_followup = [26080]"

definition label_full :: pystr where
  "label_full = [20805, 20998]"

definition label_none :: pystr where
  "label_none = [26410, 35206, 30422]"

section \<open>The outline splitter\<close>

text \<open>
  \<^verbatim>\<open>questions = [line.strip() for line in text.split('\n') if line.strip()]\<close>
\<close>

definition extract_questions_from_outline :: "pystr \<Rightarrow> py_error + pystr list" where
  "extract_questions_from_outline text =
     and_then (py_split text newline)
       (\<lambda>ls. Inr (map py_strip (filter (\<lambda>line. py_strip line \<noteq> []) ls)))"

section \<open>The response parser\<close>

text \<open>
  A row is a Python dict with string keys and values, in insertion order: the dict
  literal of the parser, with its four keys.
\<close>

type_synonym pydict = "(pystr \<times> pystr) list"

definition mk_row :: "pystr \<Rightarrow> pystr \<Rightarrow> pystr \<Rightarrow> pystr \<Rightarrow> pydict" where
  "mk_row q s c f =
     [(key_question, q), (key_summary, s), (key_coverage, c), (key_followup, f)]"

text \<open>
  A pandas DataFrame built from a list of dicts: the columns are the keys in the order
  they first appear (none at all for the empty list), the rows are the dicts. The
  values of a column of strings are stored as UTF-8 text, which cannot hold a surrogate
  code point (U+D800 to U+DFFF): \<^verbatim>\<open>pd.DataFrame(data)\<close> raises UnicodeEncodeError when
  a value of a row holds one. The column names of this program hold none.
\<close>

definition is_surrogate :: "nat \<Rightarrow> bool" where
  "is_surrogate c \<longleftrightarrow> 55296 \<le> c \<and> c \<le> 57343"

definition has_surrogate :: "pystr \<Rightarrow> bool" where
  "has_surrogate s = list_ex is_surrogate s"

record dataframe =
  columns :: "pystr list"
  rows :: "pydict list"

definition insert_key :: "pystr list \<Rightarrow> pystr \<Rightarrow> pystr list" where
  "insert_key cols k = (if k \<in> set cols then cols else cols @ [k])"

definition row_has_surrogate :: "pydict \<Rightarrow> bool" where
  "row_has_surrogate row = list_ex (\<lambda>kv. has_surrogate (snd kv)) row"

definition DataFrame :: "pydict list \<Rightarrow> py_error + dataframe" where
  "DataFrame data =
     (if list_ex row_has_surrogate data then Inl UnicodeEncodeError
      else Inr \<lparr>columns = foldl insert_key [] (concat (map (map fst) data)), rows = data\<rparr>)"

text \<open>
  The body of the loop over the kept lines; \<open>data\<close> is the list built so far.
  \<^verbatim>\<open>parts = [part.strip() for part in line.split('|')]\<close>, then a row of
  \<^verbatim>\<open>parts[0..3]\<close> if \<^verbatim>\<open>len(parts) >= 4\<close>, a row of \<^verbatim>\<open>parts[0..2]\<close> and the
  placeholder if \<^verbatim>\<open>len(parts) == 3\<close>, and nothing otherwise.
\<close>

definition append_record :: "pydict list \<Rightarrow> pystr \<Rightarrow> py_error + pydict list" where
  "append_record data line =
     and_then (py_split line delimiter) (\<lambda>fs.
       let parts = map py_strip fs in
       if length parts \<ge> 4 then
         and_then (getitem parts 0) (\<lambda>p0.
         and_then (getitem parts 1) (\<lambda>p1.
         and_then (getitem parts 2) (\<lambda>p2.
         and_then (getitem parts 3) (\<lambda>p3.
           Inr (data @ [mk_row p0 p1 p2 p3])))))
       else if length parts = 3 then
         and_then (getitem parts 0) (\<lambda>p0.
         and_then (getitem parts 1) (\<lambda>p1.
         and_then (getitem parts 2) (\<lambda>p2.
           Inr (data @ [mk_row p0 p1 p2 no_followup]))))
       else Inr data)"

fun parse_loop :: "pydict list \<Rightarrow> pystr list \<Rightarrow> py_error + pydict list" where
  "parse_loop data [] = Inr data"
| "parse_loop data (line # lines) =
     and_then (append_record data line) (\<lambda>data'. parse_loop data' lines)"

text \<open>
  \<^verbatim>\<open>lines = [line.strip() for line in response.split('\n')
            if line.strip() and '|' in line]\<close>,
  the loop over \<open>lines\<close>, and \<^verbatim>\<open>pd.DataFrame(data)\<close>.
\<close>

definition parse_response :: "pystr \<Rightarrow> py_error + dataframe" where
  "parse_response response =
     and_then (py_split response newline) (\<lambda>ls.
       let lines = map py_strip
             (filter (\<lambda>line. py_strip line \<noteq> [] \<and> py_in delimiter line) ls)
       in and_then (parse_loop [] lines) (\<lambda>data. DataFrame data))"

text \<open>
  The parser as the specification words it: a line counts when it is non-empty after
  trimming and holds at least two delimiters (code point 124); its fields are the
  trimmed pieces of the trimmed line between the delimiters; its record gives the first
  field as question, the second as summary, the third as coverage, and as follow-up
  the fourth if there is one, the placeholder otherwise. The records kept from a list
  of lines are those of its valid lines, in order.
\<close>

definition valid_line :: "pystr \<Rightarrow> bool" where
  "valid_line line \<longleftrightarrow> py_strip line \<noteq> [] \<and> 2 \<le> count_list line 124"

definition line_fields :: "pystr \<Rightarrow> pystr list" where
  "line_fields line = map py_strip (split_fields delimiter (py_strip line))"

definition record_of_line :: "pystr \<Rightarrow> pydict" where
  "record_of_line line =
     [(key_question, line_fields line ! 0),
      (key_summary, line_fields line ! 1),
      (key_coverage, line_fields line ! 2),
      (key_followup,
        if 4 \<le> length (line_fields line) then line_fields line ! 3 else no_followup)]"

definition kept_rows :: "pystr list \<Rightarrow> pydict list" where
  "kept_rows ls = map record_of_line (filter valid_line ls)"

section \<open>The coverage summary of the result page\<close>

text \<open>
  \<^verbatim>\<open>df[col]\<close>: KeyError when the frame has no such column; otherwise the column as a
  series, a missing entry of a row being NaN (\<open>None\<close>).
\<close>

definition df_getitem :: "dataframe \<Rightarrow> pystr \<Rightarrow> py_error + pystr option list" where
  "df_getitem df col =
     (if col \<in> set (columns df) then Inr (map (\<lambda>r. map_of r col) (rows df))
      else Inl KeyError)"

text \<open>\<^verbatim>\<open>value_counts()\<close>: each value that occurs (NaN apart), with its number of occurrences.\<close>

definition value_counts :: "pystr option list \<Rightarrow> (pystr \<rightharpoonup> nat)" where
  "value_counts series =
     (\<lambda>v. if Some v \<in> set series then Some (count_list series (Some v)) else None)"

definition series_get :: "(pystr \<rightharpoonup> nat) \<Rightarrow> pystr \<Rightarrow> nat \<Rightarrow> nat" where
  "series_get counts k d = (case counts k of None \<Rightarrow> d | Some n \<Rightarrow> n)"

text \<open>
  The three metrics shown above the table:
  \<^verbatim>\<open>coverage_counts = results[key_coverage].value_counts()\<close>, then
  \<^verbatim>\<open>len(results)\<close>, \<^verbatim>\<open>coverage_counts.get(label_full, 0)\<close> and
  \<^verbatim>\<open>coverage_counts.get(label_none, 0)\<close>.
\<close>

record metrics =
  total :: nat
  fullCount :: nat
  noneCount :: nat

definition coverage_metrics :: "dataframe \<Rightarrow> py_error + metrics" where
  "coverage_metrics results =
     and_then (df_getitem results key_coverage) (\<lambda>series.
       let coverage_counts = value_counts series in
       Inr \<lparr>total = length (rows results),
            fullCount = series_get coverage_counts label_full 0,
            noneCount = series_get coverage_counts label_none 0\<rparr>)"

section \<open>The upload form\<close>

text \<open>
  What the program shows or does besides computing: the messages of \<^verbatim>\<open>st.error\<close>,
  \<^verbatim>\<open>st.warning\<close> and \<^verbatim>\<open>st.info\<close>, the HTTP request to the model, and the rerun.
\<close>

datatype message =
    File_error pystr
  | Need_both_files
  | Need_api_key
  | Analysing
  | Api_status nat pystr
  | Api_exception pystr

datatype event =
    St_error message
  | St_warning message
  | St_info message
  | Requests_post pystr pystr "pystr list"
  | St_rerun

text \<open>
  The answer of \<^verbatim>\<open>requests.post\<close>: an exception, or a response with its status code, its
  text, and what \<^verbatim>\<open>response.json()['choices'][0]['message']['content']\<close> gives
  (\<open>Inl\<close> when that raises).
\<close>

datatype http_result =
    Request_exception pystr
  | Response nat pystr "pystr + pystr"

text \<open>
  The libraries the program calls are parameters. Each reader takes the bytes of the
  uploaded file and returns the texts it finds, or \<open>Inl\<close> the text of the exception it
  raises; a PDF page without text is the empty string. \<open>requests_post\<close> takes the API
  key, the interview text and the questions the prompt is built from.
\<close>

record libs =
  pdf_pages :: "nat list \<Rightarrow> pystr + pystr list"
  docx_paragraphs :: "nat list \<Rightarrow> pystr + pystr list"
  read_utf8 :: "nat list \<Rightarrow> pystr + pystr"
  requests_post :: "pystr \<Rightarrow> pystr \<Rightarrow> pystr list \<Rightarrow> http_result"

record uploaded_file =
  name :: pystr
  getvalue :: "nat list"

text \<open>
  The text of an upload and the messages shown on the way. The branch is chosen by the
  ending of the file name; an exception inside the \<^verbatim>\<open>try\<close> block is shown by
  \<^verbatim>\<open>st.error\<close> and leaves \<open>text\<close> at its initial value, the empty string, which is
  returned. The temporary file is taken to be written and removed without failure.
\<close>

definition extract_text_from_file :: "libs \<Rightarrow> uploaded_file \<Rightarrow> pystr \<times> event list" where
  "extract_text_from_file lib file =
     (if endswith (name file) (ascii ''.pdf'') then
        (case pdf_pages lib (getvalue file) of
           Inl e \<Rightarrow> ([], [St_error (File_error e)])
         | Inr pages \<Rightarrow> (py_join newline (filter (\<lambda>t. t \<noteq> []) pages), []))
      else if endswith (name file) (ascii ''.docx'') then
        (case docx_paragraphs lib (getvalue file) of
           Inl e \<Rightarrow> ([], [St_error (File_error e)])
         | Inr paras \<Rightarrow> (py_join newline (filter (\<lambda>t. t \<noteq> []) paras), []))
      else if endswith (name file) (ascii ''.txt'') then
        (case read_utf8 lib (getvalue file) of
           Inl e \<Rightarrow> ([], [St_error (File_error e)])
         | Inr t \<Rightarrow> (t, []))
      else ([], []))"

text \<open>
  An extraction failure: the reader that the ending of the file name selects raises an
  exception with text \<open>e\<close>.
\<close>

definition reader_raises :: "libs \<Rightarrow> uploaded_file \<Rightarrow> pystr \<Rightarrow> bool" where
  "reader_raises lib file e \<longleftrightarrow>
     (if endswith (name file) (ascii ''.pdf'') then pdf_pages lib (getvalue file) = Inl e
      else if endswith (name file) (ascii ''.docx'') then
        docx_paragraphs lib (getvalue file) = Inl e
      else if endswith (name file) (ascii ''.txt'') then read_utf8 lib (getvalue file) = Inl e
      else False)"

text \<open>The session state; an API key that was never entered is the empty string.\<close>

record session =
  processed :: bool
  results :: "dataframe option"
  interview_text :: pystr
  outline_questions :: "pystr list"
  deepseek_api_key :: pystr

definition analyze_with_deepseek ::
  "libs \<Rightarrow> session \<Rightarrow> pystr \<Rightarrow> pystr list \<Rightarrow> pystr option \<times> event list" where
  "analyze_with_deepseek lib st text questions =
     (let api_key = deepseek_api_key st in
      if api_key = [] then (None, [St_error Need_api_key])
      else
        (case requests_post lib api_key text questions of
           Request_exception e \<Rightarrow>
             (None, [Requests_post api_key text questions, St_error (Api_exception e)])
         | Response status_code body content \<Rightarrow>
             if status_code = 200 then
               (case content of
                  Inl e \<Rightarrow>
                    (None, [Requests_post api_key text questions, St_error (Api_exception e)])
                | Inr reply \<Rightarrow> (Some reply, [Requests_post api_key text questions]))
             else
               (None, [Requests_post api_key text questions,
                       St_error (Api_status status_code body)])))"

text \<open>
  The handler of the submit button: the new session state, the events in order, and the
  exception that ended the run, if one did. Both extracted texts are assigned to the
  session state as soon as they are computed; the reply is parsed only when it is
  non-empty (\<^verbatim>\<open>if response:\<close>).
\<close>

definition submit ::
  "libs \<Rightarrow> session \<Rightarrow> uploaded_file option \<Rightarrow> uploaded_file option \<Rightarrow>
     session \<times> event list \<times> py_error option" where
  "submit lib st interview_file outline_file =
     (case (interview_file, outline_file) of
        (Some ifile, Some ofile) \<Rightarrow>
          if deepseek_api_key st = [] then (st, [St_warning Need_api_key], None)
          else
            (let (itext, ev1) = extract_text_from_file lib ifile;
                 st1 = st\<lparr>interview_text := itext\<rparr>;
                 (outline_text, ev2) = extract_text_from_file lib ofile
             in case extract_questions_from_outline outline_text of
                  Inl err \<Rightarrow> (st1, ev1 @ ev2, Some err)
                | Inr qs \<Rightarrow>
                    (let st2 = st1\<lparr>outline_questions := qs\<rparr>;
                         (response, ev3) =
                            analyze_with_deepseek lib st2 (interview_text st2)
                              (outline_questions st2);
                         evs = ev1 @ ev2 @ [St_info Analysing] @ ev3
                     in case response of
                          None \<Rightarrow> (st2, evs, None)
                        | Some reply \<Rightarrow>
                            if reply = [] then (st2, evs, None)
                            else
                              (case parse_response reply of
                                 Inl err \<Rightarrow> (st2, evs, Some err)
                               | Inr df \<Rightarrow>
                                   (st2\<lparr>results := Some df, processed := True\<rparr>,
                                    evs @ [St_rerun], None))))
      | _ \<Rightarrow> (st, [St_warning Need_both_files], None))"

text \<open>
  A session with an API key and nothing processed yet, and a library environment whose
  PDF reader raises on every file, as a corrupt upload does; its text reader finds one
  question and its model answers with one four-field line.
\<close>

definition failing_pdf_libs :: libs where
  "failing_pdf_libs =
     \<lparr>pdf_pages = (\<lambda>bytes. Inl (ascii ''No /Root object'')),
      docx_paragraphs = (\<lambda>bytes. Inr []),
      read_utf8 = (\<lambda>bytes. Inr (ascii ''Q1'')),
      requests_post = (\<lambda>api_key text questions. Response 200 [] (Inr (ascii ''Q1 | s | c | f'')))\<rparr>"

definition new_session :: "pystr \<Rightarrow> session" where
  "new_session api_key =
     \<lparr>processed = False, results = None, interview_text = [], outline_questions = [],
      deepseek_api_key = api_key\<rparr>"

section \<open>Splitting, trimming and the lines of a reply\<close>

lemma split_fields_not_Nil: "split_fields sep s \<noteq> []"
  by (induction sep s rule: split_fields.induct) (auto split: list.splits)

lemma split_fields_chr_Cons:
  "split_fields [d] (c # cs) =
     (if c = d then [] # split_fields [d] cs
      else (c # hd (split_fields [d] cs)) # tl (split_fields [d] cs))"
  using split_fields_not_Nil [of "[d]" cs] by (auto split: list.splits)

lemma split_fields_chr_Nil: "split_fields [d] [] = [[]]"
  by simp

lemma split_fields_no_sep: "d \<notin> set x \<Longrightarrow> split_fields [d] x = [x]"
  by (induction x) (simp_all add: split_fields_chr_Cons del: split_fields.simps(2))

lemma split_fields_append:
  "d \<notin> set x \<Longrightarrow> split_fields [d] (x @ d # rest) = x # split_fields [d] rest"
  by (induction x) (simp_all add: split_fields_chr_Cons del: split_fields.simps(2))

lemma split_fields_join:
  "xs \<noteq> [] \<Longrightarrow> \<forall>x\<in>set xs. d \<notin> set x \<Longrightarrow> split_fields [d] (py_join [d] xs) = xs"
  by (induction "[d]" xs rule: py_join.induct)
     (simp_all add: split_fields_no_sep split_fields_append del: split_fields.simps(2))

lemma length_split_fields: "length (split_fields [d] s) = Suc (count_list s d)"
  using split_fields_not_Nil [of "[d]"]
  by (induction s) (simp_all add: split_fields_chr_Cons del: split_fields.simps(2))

lemma py_in_chr: "py_in [d] s \<longleftrightarrow> d \<in> set s"
  by (induction s) auto

lemma py_strip_clean: "\<forall>c\<in>set s. \<not> isspace c \<Longrightarrow> py_strip s = s"
proof -
  have id: "dropWhile isspace t = t" if "\<forall>c\<in>set t. \<not> isspace c" for t
    using that by (cases t) auto
  assume clean: "\<forall>c\<in>set s. \<not> isspace c"
  then have "dropWhile isspace (rev s) = rev s"
    by (intro id) simp
  with clean show ?thesis
    by (simp add: py_strip_def id)
qed

lemma count_list_dropWhile:
  "\<not> P d \<Longrightarrow> count_list (dropWhile P s) d = count_list s d"
  by (induction s) auto

lemma count_list_rev_eq: "count_list (rev s) d = count_list s d"
  by (induction s) auto

lemma count_list_py_strip: "\<not> isspace d \<Longrightarrow> count_list (py_strip s) d = count_list s d"
  by (simp add: py_strip_def count_list_dropWhile count_list_rev_eq)

lemma not_isspace_bar: "\<not> isspace 124"
  by (simp add: isspace_def)

lemma append_record_strip:
  "append_record data (py_strip l) =
     Inr (data @ (if 2 \<le> count_list l 124 then [record_of_line l] else []))"
proof -
  have len: "length (split_fields [124] (py_strip l)) = Suc (count_list l 124)"
    by (simp add: length_split_fields count_list_py_strip not_isspace_bar)
  show ?thesis
    by (auto simp: append_record_def py_split_def delimiter_def and_then_def Let_def
        getitem_def record_of_line_def line_fields_def mk_row_def len)
qed

lemma parse_loop_strip:
  "parse_loop data (map py_strip ls) =
     Inr (data @ map record_of_line (filter (\<lambda>l. 2 \<le> count_list l 124) ls))"
  by (induction ls arbitrary: data) (simp_all add: append_record_strip and_then_def)

lemma filter_valid_line:
  "filter (\<lambda>l. 2 \<le> count_list l 124)
     (filter (\<lambda>line. py_strip line \<noteq> [] \<and> py_in delimiter line) ls) = filter valid_line ls"
proof -
  have "d \<in> set l" if "2 \<le> count_list l d" for l :: pystr and d
    using that by (metis count_list_0_iff not_numeral_le_zero)
  then show ?thesis
    by (auto simp: valid_line_def delimiter_def py_in_chr intro!: filter_cong)
qed

lemma parse_response_lines:
  "parse_response r = DataFrame (kept_rows (split_fields newline r))"
  by (simp add: parse_response_def py_split_def newline_def and_then_def kept_rows_def
      parse_loop_strip filter_valid_line del: filter_filter)

lemma kept_rows_Nil: "kept_rows [[]] = []"
  by (simp add: kept_rows_def valid_line_def py_strip_def)

lemma parse_response_join:
  assumes "\<forall>l\<in>set ls. \<not> py_in newline l"
  shows "parse_response (py_join newline ls) = DataFrame (kept_rows ls)"
proof (cases "ls = []")
  case True
  then show ?thesis
    by (simp add: parse_response_lines newline_def kept_rows_Nil) (simp add: kept_rows_def)
next
  case False
  with assms have "split_fields newline (py_join newline ls) = ls"
    by (simp add: newline_def py_in_chr split_fields_join)
  then show ?thesis
    by (simp add: parse_response_lines)
qed

lemma valid_line_iff: "valid_line line \<longleftrightarrow> 3 \<le> length (line_fields line)"
proof -
  have cnt: "count_list (py_strip line) 124 = count_list line 124"
    by (simp add: count_list_py_strip not_isspace_bar)
  have "py_strip line \<noteq> []" if "2 \<le> count_list line 124"
    using that cnt by auto
  then show ?thesis
    by (auto simp: valid_line_def line_fields_def delimiter_def length_split_fields cnt)
qed

lemma py_split_delimiter:
  "py_split (py_strip line) delimiter = Inr fs \<Longrightarrow> line_fields line = map py_strip fs"
  by (auto simp: py_split_def delimiter_def line_fields_def split: if_splits)

lemma kept_rows_context:
  "kept_rows (before @ line # after) =
     kept_rows before @ (if valid_line line then [record_of_line line] else []) @ kept_rows after"
  by (simp add: kept_rows_def)

subsection \<open>When the table is built\<close>

lemma DataFrame_Inr:
  "DataFrame data = Inr df \<Longrightarrow> rows df = data \<and> \<not> list_ex row_has_surrogate data"
  by (auto simp: DataFrame_def split: if_splits)

lemma DataFrame_Inr_iff: "(\<exists>df. DataFrame data = Inr df) \<longleftrightarrow> \<not> list_ex row_has_surrogate data"
  by (simp add: DataFrame_def)

lemma DataFrame_Inl_iff:
  "DataFrame data = Inl e \<longleftrightarrow> list_ex row_has_surrogate data \<and> e = UnicodeEncodeError"
  by (auto simp: DataFrame_def)

lemma row_has_surrogate_fields:
  "row_has_surrogate [(k1, q), (k2, s), (k3, c), (k4, f)] \<longleftrightarrow>
     has_surrogate q \<or> has_surrogate s \<or> has_surrogate c \<or> has_surrogate f"
  by (simp add: row_has_surrogate_def)

lemma not_has_surrogate_no_followup: "\<not> has_surrogate no_followup"
  by (simp add: has_surrogate_def no_followup_def is_surrogate_def)

lemma has_surrogate_Nil: "\<not> has_surrogate []"
  by (simp add: has_surrogate_def)

lemma no_followup_not_Nil: "no_followup \<noteq> []"
  by (simp add: no_followup_def)

lemma map_of_row:
  "map_of [(key_question, q), (key_summary, s), (key_coverage, c), (key_followup, f)] key_question = Some q"
  "map_of [(key_question, q), (key_summary, s), (key_coverage, c), (key_followup, f)] key_summary = Some s"
  "map_of [(key_question, q), (key_summary, s), (key_coverage, c), (key_followup, f)] key_coverage = Some c"
  "map_of [(key_question, q), (key_summary, s), (key_coverage, c), (key_followup, f)] key_followup = Some f"
  by (simp_all add: key_question_def key_summary_def key_coverage_def key_followup_def)

text \<open>
  A valid line inside a reply: the reply is accepted exactly when the lines before and
  after it are and the record of the line holds no surrogate, and then the rows are
  those of the lines before, the record of the line, and those of the lines after.
\<close>

lemma parse_response_kept_line:
  assumes lines: "\<forall>l\<in>set (before @ line # after). \<not> py_in newline l"
    and valid: "valid_line line"
  shows "(\<exists>df. parse_response (py_join newline (before @ line # after)) = Inr df) \<longleftrightarrow>
           (\<exists>df1. parse_response (py_join newline before) = Inr df1) \<and>
           (\<exists>df2. parse_response (py_join newline after) = Inr df2) \<and>
           \<not> row_has_surrogate (record_of_line line)"
    and "parse_response (py_join newline (before @ line # after)) = Inr df \<Longrightarrow>
           \<exists>df1 df2.
             parse_response (py_join newline before) = Inr df1 \<and>
             parse_response (py_join newline after) = Inr df2 \<and>
             rows df = rows df1 @ record_of_line line # rows df2"
proof -
  from lines have b: "parse_response (py_join newline before) = DataFrame (kept_rows before)"
    and a: "parse_response (py_join newline after) = DataFrame (kept_rows after)"
    and w: "parse_response (py_join newline (before @ line # after)) =
      DataFrame (kept_rows before @ record_of_line line # kept_rows after)"
    using valid by (simp_all add: parse_response_join kept_rows_context)
  show "(\<exists>df. parse_response (py_join newline (before @ line # after)) = Inr df) \<longleftrightarrow>
           (\<exists>df1. parse_response (py_join newline before) = Inr df1) \<and>
           (\<exists>df2. parse_response (py_join newline after) = Inr df2) \<and>
           \<not> row_has_surrogate (record_of_line line)"
    unfolding a b w DataFrame_Inr_iff by auto
  show "\<exists>df1 df2.
             parse_response (py_join newline before) = Inr df1 \<and>
             parse_response (py_join newline after) = Inr df2 \<and>
             rows df = rows df1 @ record_of_line line # rows df2"
    if "parse_response (py_join newline (before @ line # after)) = Inr df"
    using that unfolding a b w by (auto simp: DataFrame_def split: if_splits)
qed

lemma record_of_line_fields:
  assumes "line_fields line = q # s # c # rest"
  shows "record_of_line line =
     [(key_question, q), (key_summary, s), (key_coverage, c),
      (key_followup, if rest = [] then no_followup else hd rest)]"
  using assms by (cases rest) (simp_all add: record_of_line_def)

text \<open>
  The row of a line with at least three fields, inside a reply: \<open>f\<close> is the fourth field
  if there is one and the placeholder otherwise.
\<close>

lemma parse_response_row_in_context:
  assumes lines: "\<forall>l\<in>set (before @ line # after). \<not> py_in newline l"
    and lf: "line_fields line = q # s # c # rest"
    and f: "f = (if rest = [] then no_followup else hd rest)"
  shows "((\<exists>df. parse_response (py_join newline (before @ line # after)) = Inr df) \<longleftrightarrow>
            (\<exists>df1. parse_response (py_join newline before) = Inr df1) \<and>
            (\<exists>df2. parse_response (py_join newline after) = Inr df2) \<and>
            \<not> (has_surrogate q \<or> has_surrogate s \<or> has_surrogate c \<or> has_surrogate f)) \<and>
         (\<forall>df. parse_response (py_join newline (before @ line # after)) = Inr df \<longrightarrow>
            (\<exists>df1 df2 row.
               parse_response (py_join newline before) = Inr df1 \<and>
               parse_response (py_join newline after) = Inr df2 \<and>
               rows df = rows df1 @ row # rows df2 \<and>
               map fst row = [key_question, key_summary, key_coverage, key_followup] \<and>
               map_of row key_question = Some q \<and> map_of row key_summary = Some s \<and>
               map_of row key_coverage = Some c \<and> map_of row key_followup = Some f))"
proof -
  from lf have valid: "valid_line line"
    by (simp add: valid_line_iff)
  let ?row = "[(key_question, q), (key_summary, s), (key_coverage, c), (key_followup, f)]"
  from lf f have row: "record_of_line line = ?row"
    by (simp add: record_of_line_fields)
  note kept = parse_response_kept_line [OF lines valid, unfolded row row_has_surrogate_fields]
  have "\<exists>df1 df2 row.
      parse_response (py_join newline before) = Inr df1 \<and>
      parse_response (py_join newline after) = Inr df2 \<and>
      rows df = rows df1 @ row # rows df2 \<and>
      map fst row = [key_question, key_summary, key_coverage, key_followup] \<and>
      map_of row key_question = Some q \<and> map_of row key_summary = Some s \<and>
      map_of row key_coverage = Some c \<and> map_of row key_followup = Some f"
    if "parse_response (py_join newline (before @ line # after)) = Inr df" for df
  proof -
    from kept(2) [OF that] obtain df1 df2 where
      b: "parse_response (py_join newline before) = Inr df1" and
      a: "parse_response (py_join newline after) = Inr df2" and
      r: "rows df = rows df1 @ ?row # rows df2"
      by blast
    show ?thesis
    proof (intro exI conjI)
      show "parse_response (py_join newline before) = Inr df1" by (fact b)
      show "parse_response (py_join newline after) = Inr df2" by (fact a)
      show "rows df = rows df1 @ ?row # rows df2" by (fact r)
      show "map fst ?row = [key_question, key_summary, key_coverage, key_followup]" by simp
      show "map_of ?row key_question = Some q" by (rule map_of_row)
      show "map_of ?row key_summary = Some s" by (rule map_of_row)
      show "map_of ?row key_coverage = Some c" by (rule map_of_row)
      show "map_of ?row key_followup = Some f" by (rule map_of_row)
    qed
  qed
  with kept(1) show ?thesis
    by simp
qed

text \<open>The definitions that evaluate the parser on a concrete reply.\<close>

lemmas eval_parse = parse_response_def py_split_def and_then_def ascii_def newline_def
  delimiter_def py_strip_def isspace_def append_record_def getitem_def mk_row_def
  DataFrame_def row_has_surrogate_def has_surrogate_def is_surrogate_def insert_key_def
  key_question_def key_summary_def key_coverage_def key_followup_def no_followup_def

section \<open>Field-count dispatch of the parser\<close>

text \<open>
  C1, amended. A reply is the newline-join of its lines. Take a line of the reply whose
  trimmed text splits on the delimiter into at least four fields, trimmed to \<open>q\<close>,
  \<open>s\<close>, \<open>c\<close>, \<open>f\<close> and any further ones. Then the reply is parsed without error exactly when
  the lines before it and the lines after it are and none of \<open>q\<close>, \<open>s\<close>, \<open>c\<close>, \<open>f\<close> holds a
  surrogate code point;
  the further fields are ignored whatever they hold. When the reply is parsed, its rows
  are the rows of the lines before, then exactly one row for this line, then the rows
  of the lines after, and that row has the four columns in order, with \<open>q\<close> under
  question, \<open>s\<close> under summary, \<open>c\<close> under coverage and \<open>f\<close> under follow-up. The
  counterexample is a four-field line whose third field is a surrogate: the table is
  not built and no record is produced.
\<close>

theorem parse_response_four_fields:
  assumes lines: "\<forall>l\<in>set (before @ line # after). \<not> py_in newline l"
    and split: "py_split (py_strip line) delimiter = Inr fs"
    and fields: "map py_strip fs = q # s # c # f # extra"
  shows "((\<exists>df. parse_response (py_join newline (before @ line # after)) = Inr df) \<longleftrightarrow>
            (\<exists>df1. parse_response (py_join newline before) = Inr df1) \<and>
            (\<exists>df2. parse_response (py_join newline after) = Inr df2) \<and>
            \<not> (has_surrogate q \<or> has_surrogate s \<or> has_surrogate c \<or> has_surrogate f)) \<and>
         (\<forall>df. parse_response (py_join newline (before @ line # after)) = Inr df \<longrightarrow>
            (\<exists>df1 df2 row.
               parse_response (py_join newline before) = Inr df1 \<and>
               parse_response (py_join newline after) = Inr df2 \<and>
               rows df = rows df1 @ row # rows df2 \<and>
               map fst row = [key_question, key_summary, key_coverage, key_followup] \<and>
               map_of row key_question = Some q \<and> map_of row key_summary = Some s \<and>
               map_of row key_coverage = Some c \<and> map_of row key_followup = Some f))"
proof -
  from split fields have "line_fields line = q # s # c # f # extra"
    by (simp add: py_split_delimiter)
  then have "((\<exists>df. parse_response (py_join newline (before @ line # after)) = Inr df) \<longleftrightarrow>
            (\<exists>df1. parse_response (py_join newline before) = Inr df1) \<and>
            (\<exists>df2. parse_response (py_join newline after) = Inr df2) \<and>
            \<not> (has_surrogate q \<or> has_surrogate s \<or> has_surrogate c \<or> has_surrogate f)) \<and>
         (\<forall>df. parse_response (py_join newline (before @ line # after)) = Inr df \<longrightarrow>
            (\<exists>df1 df2 row.
               parse_response (py_join newline before) = Inr df1 \<and>
               parse_response (py_join newline after) = Inr df2 \<and>
               rows df = rows df1 @ row # rows df2 \<and>
               map fst row = [key_question, key_summary, key_coverage, key_followup] \<and>
               map_of row key_question = Some q \<and> map_of row key_summary = Some s \<and>
               map_of row key_coverage = Some c \<and> map_of row key_followup = Some f))"
    by (rule parse_response_row_in_context [OF lines]) simp
  then show ?thesis
    by (simp add: not_has_surrogate_no_followup has_surrogate_Nil no_followup_not_Nil)
qed

theorem parse_response_four_fields_witness:
  "\<not> py_in newline (ascii ''narrative'') \<and>
   \<not> py_in newline (ascii ''Q1 | summary text | full | ask more | extra'') \<and>
   \<not> py_in newline (ascii ''Q2 | s'') \<and>
   py_split (py_strip (ascii ''Q1 | summary text | full | ask more | extra'')) delimiter =
     Inr [ascii ''Q1 '', ascii '' summary text '', ascii '' full '', ascii '' ask more '', ascii '' extra''] \<and>
   parse_response (py_join newline [ascii ''narrative'', ascii ''Q1 | summary text | full | ask more | extra'', ascii ''Q2 | s'']) =
     Inr \<lparr>columns = [key_question, key_summary, key_coverage, key_followup],
          rows = [[(key_question, ascii ''Q1''), (key_summary, ascii ''summary text''),
        (key_coverage, ascii ''full''), (key_followup, ascii ''ask more'')]]\<rparr> \<and>
   (\<exists>df1 df2 row.
      parse_response (py_join newline [ascii ''narrative'']) = Inr df1 \<and>
      parse_response (py_join newline [ascii ''Q2 | s'']) = Inr df2 \<and>
      [[(key_question, ascii ''Q1''), (key_summary, ascii ''summary text''),
        (key_coverage, ascii ''full''), (key_followup, ascii ''ask more'')]] =
        rows df1 @ row # rows df2 \<and>
      map fst row = [key_question, key_summary, key_coverage, key_followup] \<and>
      map_of row key_question = Some (ascii ''Q1'') \<and>
      map_of row key_summary = Some (ascii ''summary text'') \<and>
      map_of row key_coverage = Some (ascii ''full'') \<and>
      map_of row key_followup = Some (ascii ''ask more''))"
proof -
  let ?line = "ascii ''Q1 | summary text | full | ask more | extra''"
  let ?fs = "[ascii ''Q1 '', ascii '' summary text '', ascii '' full '', ascii '' ask more '', ascii '' extra'']"
  let ?df = "\<lparr>columns = [key_question, key_summary, key_coverage, key_followup],
          rows = [[(key_question, ascii ''Q1''), (key_summary, ascii ''summary text''),
        (key_coverage, ascii ''full''), (key_followup, ascii ''ask more'')]]\<rparr>"
  have lines: "\<forall>l\<in>set ([ascii ''narrative''] @ ?line # [ascii ''Q2 | s'']). \<not> py_in newline l"
    by (simp add: ascii_def newline_def)
  have split: "py_split (py_strip ?line) delimiter = Inr ?fs"
    by (simp add: ascii_def py_split_def delimiter_def py_strip_def isspace_def)
  have fields: "map py_strip ?fs = ascii ''Q1'' # ascii ''summary text'' # ascii ''full'' # ascii ''ask more'' # [ascii ''extra'']"
    by (simp add: ascii_def py_strip_def isspace_def)
  have parsed: "parse_response (py_join newline ([ascii ''narrative''] @ ?line # [ascii ''Q2 | s''])) = Inr ?df"
    by (simp add: eval_parse)
  note parse_response_four_fields [OF lines split fields, THEN conjunct2, rule_format, OF parsed]
  then have "\<exists>df1 df2 row.
      parse_response (py_join newline [ascii ''narrative'']) = Inr df1 \<and>
      parse_response (py_join newline [ascii ''Q2 | s'']) = Inr df2 \<and>
      [[(key_question, ascii ''Q1''), (key_summary, ascii ''summary text''),
        (key_coverage, ascii ''full''), (key_followup, ascii ''ask more'')]] =
        rows df1 @ row # rows df2 \<and>
      map fst row = [key_question, key_summary, key_coverage, key_followup] \<and>
      map_of row key_question = Some (ascii ''Q1'') \<and>
      map_of row key_summary = Some (ascii ''summary text'') \<and>
      map_of row key_coverage = Some (ascii ''full'') \<and>
      map_of row key_followup = Some (ascii ''ask more'')"
    by simp
  moreover from lines have "\<not> py_in newline (ascii ''narrative'')" "\<not> py_in newline (ascii ''Q1 | summary text | full | ask more | extra'')" "\<not> py_in newline (ascii ''Q2 | s'')"
    by simp_all
  moreover from parsed have "parse_response (py_join newline [ascii ''narrative'', ascii ''Q1 | summary text | full | ask more | extra'', ascii ''Q2 | s'']) = Inr ?df"
    by simp
  ultimately show ?thesis
    using split by (intro conjI) (simp_all add: no_followup_not_Nil)
qed

theorem parse_response_four_fields_counterexample:
  "py_split (py_strip [97, 124, 98, 124, 55296, 124, 100]) delimiter =
     Inr [[97], [98], [55296], [100]] \<and>
   parse_response [97, 124, 98, 124, 55296, 124, 100] = Inl UnicodeEncodeError"
  by (simp add: eval_parse)

text \<open>
  C2, amended. Take a line of the reply whose trimmed text splits on the delimiter into
  exactly three fields, trimmed to \<open>q\<close>, \<open>s\<close> and \<open>c\<close>. Then the reply is parsed without error exactly when
  the lines before it and the lines after it are and none of \<open>q\<close>, \<open>s\<close>, \<open>c\<close> holds a
  surrogate code point. When the reply is
  parsed, its rows are the rows of the lines before, then exactly one row for this line,
  then the rows of the lines after, and that row has \<open>q\<close> under question, \<open>s\<close> under
  summary, \<open>c\<close> under coverage and, under follow-up, the placeholder of the program,
  the one-character string U+65E0 (\<open>no_followup\<close>). The placeholder is not the English
  word "none", and a three-field line with a surrogate field is not parsed: the
  counterexample evaluates the parser on both.
\<close>

theorem parse_response_three_fields:
  assumes lines: "\<forall>l\<in>set (before @ line # after). \<not> py_in newline l"
    and split: "py_split (py_strip line) delimiter = Inr fs"
    and fields: "map py_strip fs = [q, s, c]"
  shows "((\<exists>df. parse_response (py_join newline (before @ line # after)) = Inr df) \<longleftrightarrow>
            (\<exists>df1. parse_response (py_join newline before) = Inr df1) \<and>
            (\<exists>df2. parse_response (py_join newline after) = Inr df2) \<and>
            \<not> (has_surrogate q \<or> has_surrogate s \<or> has_surrogate c)) \<and>
         (\<forall>df. parse_response (py_join newline (before @ line # after)) = Inr df \<longrightarrow>
            (\<exists>df1 df2 row.
               parse_response (py_join newline before) = Inr df1 \<and>
               parse_response (py_join newline after) = Inr df2 \<and>
               rows df = rows df1 @ row # rows df2 \<and>
               map fst row = [key_question, key_summary, key_coverage, key_followup] \<and>
               map_of row key_question = Some q \<and> map_of row key_summary = Some s \<and>
               map_of row key_coverage = Some c \<and> map_of row key_followup = Some no_followup))"
proof -
  from split fields have "line_fields line = [q, s, c]"
    by (simp add: py_split_delimiter)
  then have "((\<exists>df. parse_response (py_join newline (before @ line # after)) = Inr df) \<longleftrightarrow>
            (\<exists>df1. parse_response (py_join newline before) = Inr df1) \<and>
            (\<exists>df2. parse_response (py_join newline after) = Inr df2) \<and>
            \<not> (has_surrogate q \<or> has_surrogate s \<or> has_surrogate c \<or> has_surrogate no_followup)) \<and>
         (\<forall>df. parse_response (py_join newline (before @ line # after)) = Inr df \<longrightarrow>
            (\<exists>df1 df2 row.
               parse_response (py_join newline before) = Inr df1 \<and>
               parse_response (py_join newline after) = Inr df2 \<and>
               rows df = rows df1 @ row # rows df2 \<and>
               map fst row = [key_question, key_summary, key_coverage, key_followup] \<and>
               map_of row key_question = Some q \<and> map_of row key_summary = Some s \<and>
               map_of row key_coverage = Some c \<and> map_of row key_followup = Some no_followup))"
    by (rule parse_response_row_in_context [OF lines]) simp
  then show ?thesis
    by (simp add: not_has_surrogate_no_followup has_surrogate_Nil no_followup_not_Nil)
qed

theorem parse_response_three_fields_witness:
  "\<not> py_in newline (ascii ''Q1 | summary text | full'') \<and>
   py_split (py_strip (ascii ''Q1 | summary text | full'')) delimiter =
     Inr [ascii ''Q1 '', ascii '' summary text '', ascii '' full''] \<and>
   parse_response (py_join newline [ascii ''Q1 | summary text | full'']) =
     Inr \<lparr>columns = [key_question, key_summary, key_coverage, key_followup],
          rows = [[(key_question, ascii ''Q1''), (key_summary, ascii ''summary text''),
        (key_coverage, ascii ''full''), (key_followup, no_followup)]]\<rparr> \<and>
   (\<exists>df1 df2 row.
      parse_response (py_join newline []) = Inr df1 \<and>
      parse_response (py_join newline []) = Inr df2 \<and>
      [[(key_question, ascii ''Q1''), (key_summary, ascii ''summary text''),
        (key_coverage, ascii ''full''), (key_followup, no_followup)]] =
        rows df1 @ row # rows df2 \<and>
      map fst row = [key_question, key_summary, key_coverage, key_followup] \<and>
      map_of row key_question = Some (ascii ''Q1'') \<and>
      map_of row key_summary = Some (ascii ''summary text'') \<and>
      map_of row key_coverage = Some (ascii ''full'') \<and>
      map_of row key_followup = Some no_followup)"
proof -
  let ?line = "ascii ''Q1 | summary text | full''"
  let ?fs = "[ascii ''Q1 '', ascii '' summary text '', ascii '' full'']"
  let ?df = "\<lparr>columns = [key_question, key_summary, key_coverage, key_followup],
          rows = [[(key_question, ascii ''Q1''), (key_summary, ascii ''summary text''),
        (key_coverage, ascii ''full''), (key_followup, no_followup)]]\<rparr>"
  have lines: "\<forall>l\<in>set ([] @ ?line # []). \<not> py_in newline l"
    by (simp add: ascii_def newline_def)
  have split: "py_split (py_strip ?line) delimiter = Inr ?fs"
    by (simp add: ascii_def py_split_def delimiter_def py_strip_def isspace_def)
  have fields: "map py_strip ?fs = [ascii ''Q1'', ascii ''summary text'', ascii ''full'']"
    by (simp add: ascii_def py_strip_def isspace_def)
  have parsed: "parse_response (py_join newline ([] @ ?line # [])) = Inr ?df"
    by (simp add: eval_parse)
  note parse_response_three_fields [OF lines split fields, THEN conjunct2, rule_format, OF parsed]
  then have "\<exists>df1 df2 row.
      parse_response (py_join newline []) = Inr df1 \<and>
      parse_response (py_join newline []) = Inr df2 \<and>
      [[(key_question, ascii ''Q1''), (key_summary, ascii ''summary text''),
        (key_coverage, ascii ''full''), (key_followup, no_followup)]] =
        rows df1 @ row # rows df2 \<and>
      map fst row = [key_question, key_summary, key_coverage, key_followup] \<and>
      map_of row key_question = Some (ascii ''Q1'') \<and>
      map_of row key_summary = Some (ascii ''summary text'') \<and>
      map_of row key_coverage = Some (ascii ''full'') \<and>
      map_of row key_followup = Some no_followup"
    by simp
  moreover from lines have "\<not> py_in newline (ascii ''Q1 | summary text | full'')"
    by simp_all
  moreover from parsed have "parse_response (py_join newline [ascii ''Q1 | summary text | full'']) = Inr ?df"
    by simp
  ultimately show ?thesis
    using split by (intro conjI) (simp_all add: no_followup_not_Nil)
qed

theorem followup_placeholder_counterexample:
  "parse_response (ascii ''Q1 | summary text | full'') =
     Inr \<lparr>columns = [key_question, key_summary, key_coverage, key_followup],
          rows = [[(key_question, ascii ''Q1''), (key_summary, ascii ''summary text''),
                   (key_coverage, ascii ''full''), (key_followup, [26080])]]\<rparr> \<and>
   [26080] \<noteq> ascii ''none'' \<and>
   parse_response (ascii ''Q1 | summary text | full'') \<noteq>
     Inr \<lparr>columns = [key_question, key_summary, key_coverage, key_followup],
          rows = [[(key_question, ascii ''Q1''), (key_summary, ascii ''summary text''),
                   (key_coverage, ascii ''full''), (key_followup, ascii ''none'')]]\<rparr> \<and>
   py_split (py_strip [97, 124, 98, 124, 55296]) delimiter = Inr [[97], [98], [55296]] \<and>
   parse_response [97, 124, 98, 124, 55296] = Inl UnicodeEncodeError"
  by (simp add: eval_parse)

text \<open>
  C3. A line of the reply that is empty after trimming, or holds no delimiter, or whose
  trimmed text splits into at most two fields (a line with one delimiter and an empty
  second field among them, as in the witness), adds no record and no failure: the
  parser gives for the reply what it gives for the reply without that line, be it a
  table or an error; the line alone parses to the table without rows; and when the
  reply is parsed, its rows are the rows of the lines before followed by the rows of
  the lines after.
\<close>

theorem parse_response_short_line:
  assumes lines: "\<forall>l\<in>set (before @ line # after). \<not> py_in newline l"
    and short: "py_strip line = [] \<or> \<not> py_in delimiter line \<or>
      (\<exists>fs. py_split (py_strip line) delimiter = Inr fs \<and> length fs \<le> 2)"
  shows "parse_response (py_join newline (before @ line # after)) =
           parse_response (py_join newline (before @ after)) \<and>
         parse_response line = Inr \<lparr>columns = [], rows = []\<rparr> \<and>
         (\<forall>df. parse_response (py_join newline (before @ line # after)) = Inr df \<longrightarrow>
            (\<exists>df1 df2.
               parse_response (py_join newline before) = Inr df1 \<and>
               parse_response (py_join newline after) = Inr df2 \<and>
               rows df = rows df1 @ rows df2))"
proof -
  have invalid: "\<not> valid_line line"
  proof
    assume valid: "valid_line line"
    then have "py_strip line \<noteq> []" and two: "2 \<le> count_list line 124"
      by (simp_all add: valid_line_def)
    moreover from two have "124 \<in> set line"
      by (metis count_list_0_iff not_numeral_le_zero)
    then have "py_in delimiter line"
      by (simp add: delimiter_def py_in_chr)
    moreover from valid have "\<not> length (split_fields delimiter (py_strip line)) \<le> 2"
      by (simp add: valid_line_iff line_fields_def)
    ultimately show False
      using short by (auto simp: py_split_def delimiter_def)
  qed
  from lines have whole: "parse_response (py_join newline (before @ line # after)) =
      DataFrame (kept_rows before @ kept_rows after)"
    using invalid by (simp add: parse_response_join kept_rows_context)
  from lines have rest: "parse_response (py_join newline (before @ after)) =
      DataFrame (kept_rows before @ kept_rows after)"
    by (simp add: parse_response_join kept_rows_def)
  from lines have b: "parse_response (py_join newline before) = DataFrame (kept_rows before)"
    and a: "parse_response (py_join newline after) = DataFrame (kept_rows after)"
    by (simp_all add: parse_response_join)
  from lines have "parse_response (py_join newline [line]) = DataFrame (kept_rows [line])"
    by (intro parse_response_join) simp
  with invalid have alone: "parse_response line = Inr \<lparr>columns = [], rows = []\<rparr>"
    by (simp add: kept_rows_def DataFrame_def)
  have "\<exists>df1 df2.
      parse_response (py_join newline before) = Inr df1 \<and>
      parse_response (py_join newline after) = Inr df2 \<and>
      rows df = rows df1 @ rows df2"
    if "parse_response (py_join newline (before @ line # after)) = Inr df" for df
    using that unfolding whole a b by (auto simp: DataFrame_def split: if_splits)
  with whole rest alone show ?thesis
    by simp
qed

theorem parse_response_short_line_witness:
  "\<not> py_in newline (ascii ''Q1 | s | full'') \<and> \<not> py_in newline (ascii ''Q2 |'') \<and>
   \<not> py_in newline (ascii ''Q3 | t | part | more'') \<and>
   py_split (py_strip (ascii ''Q2 |'')) delimiter = Inr [ascii ''Q2 '', []] \<and>
   parse_response (py_join newline
     [ascii ''Q1 | s | full'', ascii ''Q2 |'', ascii ''Q3 | t | part | more'']) =
     Inr \<lparr>columns = [key_question, key_summary, key_coverage, key_followup],
          rows = [[(key_question, ascii ''Q1''), (key_summary, ascii ''s''),
                   (key_coverage, ascii ''full''), (key_followup, no_followup)],
                  [(key_question, ascii ''Q3''), (key_summary, ascii ''t''),
                   (key_coverage, ascii ''part''), (key_followup, ascii ''more'')]]\<rparr> \<and>
   parse_response (ascii ''Q2 |'') = Inr \<lparr>columns = [], rows = []\<rparr>"
proof -
  let ?l1 = "ascii ''Q1 | s | full''" and ?l2 = "ascii ''Q2 |''"
    and ?l3 = "ascii ''Q3 | t | part | more''"
  let ?df = "\<lparr>columns = [key_question, key_summary, key_coverage, key_followup],
          rows = [[(key_question, ascii ''Q1''), (key_summary, ascii ''s''),
                   (key_coverage, ascii ''full''), (key_followup, no_followup)],
                  [(key_question, ascii ''Q3''), (key_summary, ascii ''t''),
                   (key_coverage, ascii ''part''), (key_followup, ascii ''more'')]]\<rparr>"
  have lines: "\<forall>l\<in>set ([?l1] @ ?l2 # [?l3]). \<not> py_in newline l"
    by (simp add: ascii_def newline_def)
  have split: "py_split (py_strip ?l2) delimiter = Inr [ascii ''Q2 '', []]"
    by (simp add: ascii_def py_split_def delimiter_def py_strip_def isspace_def)
  then have short: "py_strip ?l2 = [] \<or> \<not> py_in delimiter ?l2 \<or>
      (\<exists>fs. py_split (py_strip ?l2) delimiter = Inr fs \<and> length fs \<le> 2)"
    by simp
  have others: "parse_response (py_join newline ([?l1] @ [?l3])) = Inr ?df"
    by (simp add: eval_parse)
  note at_line = parse_response_short_line [OF lines short]
  from at_line [THEN conjunct1] others
  have "parse_response (py_join newline [?l1, ?l2, ?l3]) = Inr ?df"
    by simp
  moreover note at_line [THEN conjunct2, THEN conjunct1]
  moreover from lines have "\<not> py_in newline ?l1" "\<not> py_in newline ?l2" "\<not> py_in newline ?l3"
    by simp_all
  ultimately show ?thesis
    using split by (intro conjI)
qed

section \<open>The placeholder goes by field count\<close>

text \<open>
  C9, amended. Take a line of the reply whose trimmed text splits into exactly four
  fields, trimmed to \<open>q\<close>, \<open>s\<close>, \<open>c\<close> and the empty string (a line that ends in the
  delimiter). Then the reply is parsed without error exactly when
  the lines before it and the lines after it are and none of \<open>q\<close>, \<open>s\<close>, \<open>c\<close> holds a
  surrogate code point. When the reply is parsed, the line gives exactly
  one row, between the rows of the lines before and after, and the follow-up of that
  row is the empty string, which is not the placeholder. The counterexample is such a
  line with a surrogate as third field: no record is produced.
\<close>

theorem parse_response_empty_fourth_field:
  assumes lines: "\<forall>l\<in>set (before @ line # after). \<not> py_in newline l"
    and split: "py_split (py_strip line) delimiter = Inr fs"
    and fields: "map py_strip fs = [q, s, c, []]"
  shows "((\<exists>df. parse_response (py_join newline (before @ line # after)) = Inr df) \<longleftrightarrow>
            (\<exists>df1. parse_response (py_join newline before) = Inr df1) \<and>
            (\<exists>df2. parse_response (py_join newline after) = Inr df2) \<and>
            \<not> (has_surrogate q \<or> has_surrogate s \<or> has_surrogate c)) \<and>
         (\<forall>df. parse_response (py_join newline (before @ line # after)) = Inr df \<longrightarrow>
            (\<exists>df1 df2 row.
               parse_response (py_join newline before) = Inr df1 \<and>
               parse_response (py_join newline after) = Inr df2 \<and>
               rows df = rows df1 @ row # rows df2 \<and>
               map fst row = [key_question, key_summary, key_coverage, key_followup] \<and>
               map_of row key_question = Some q \<and> map_of row key_summary = Some s \<and>
               map_of row key_coverage = Some c \<and> map_of row key_followup = Some [])) \<and>
         no_followup \<noteq> []"
proof -
  from split fields have "line_fields line = [q, s, c, []]"
    by (simp add: py_split_delimiter)
  then have "((\<exists>df. parse_response (py_join newline (before @ line # after)) = Inr df) \<longleftrightarrow>
            (\<exists>df1. parse_response (py_join newline before) = Inr df1) \<and>
            (\<exists>df2. parse_response (py_join newline after) = Inr df2) \<and>
            \<not> (has_surrogate q \<or> has_surrogate s \<or> has_surrogate c \<or> has_surrogate [])) \<and>
         (\<forall>df. parse_response (py_join newline (before @ line # after)) = Inr df \<longrightarrow>
            (\<exists>df1 df2 row.
               parse_response (py_join newline before) = Inr df1 \<and>
               parse_response (py_join newline after) = Inr df2 \<and>
               rows df = rows df1 @ row # rows df2 \<and>
               map fst row = [key_question, key_summary, key_coverage, key_followup] \<and>
               map_of row key_question = Some q \<and> map_of row key_summary = Some s \<and>
               map_of row key_coverage = Some c \<and> map_of row key_followup = Some []))"
    by (rule parse_response_row_in_context [OF lines]) simp
  then show ?thesis
    by (simp add: not_has_surrogate_no_followup has_surrogate_Nil no_followup_not_Nil)
qed

theorem parse_response_empty_fourth_field_witness:
  "\<not> py_in newline (ascii ''Q1 | s | full |'') \<and>
   py_split (py_strip (ascii ''Q1 | s | full |'')) delimiter =
     Inr [ascii ''Q1 '', ascii '' s '', ascii '' full '', []] \<and>
   parse_response (py_join newline [ascii ''Q1 | s | full |'']) =
     Inr \<lparr>columns = [key_question, key_summary, key_coverage, key_followup],
          rows = [[(key_question, ascii ''Q1''), (key_summary, ascii ''s''),
        (key_coverage, ascii ''full''), (key_followup, [])]]\<rparr> \<and>
   (\<exists>df1 df2 row.
      parse_response (py_join newline []) = Inr df1 \<and>
      parse_response (py_join newline []) = Inr df2 \<and>
      [[(key_question, ascii ''Q1''), (key_summary, ascii ''s''),
        (key_coverage, ascii ''full''), (key_followup, [])]] =
        rows df1 @ row # rows df2 \<and>
      map fst row = [key_question, key_summary, key_coverage, key_followup] \<and>
      map_of row key_question = Some (ascii ''Q1'') \<and>
      map_of row key_summary = Some (ascii ''s'') \<and>
      map_of row key_coverage = Some (ascii ''full'') \<and>
      map_of row key_followup = Some []) \<and>
   no_followup \<noteq> []"
proof -
  let ?line = "ascii ''Q1 | s | full |''"
  let ?fs = "[ascii ''Q1 '', ascii '' s '', ascii '' full '', []]"
  let ?df = "\<lparr>columns = [key_question, key_summary, key_coverage, key_followup],
          rows = [[(key_question, ascii ''Q1''), (key_summary, ascii ''s''),
        (key_coverage, ascii ''full''), (key_followup, [])]]\<rparr>"
  have lines: "\<forall>l\<in>set ([] @ ?line # []). \<not> py_in newline l"
    by (simp add: ascii_def newline_def)
  have split: "py_split (py_strip ?line) delimiter = Inr ?fs"
    by (simp add: ascii_def py_split_def delimiter_def py_strip_def isspace_def)
  have fields: "map py_strip ?fs = [ascii ''Q1'', ascii ''s'', ascii ''full'', []]"
    by (simp add: ascii_def py_strip_def isspace_def)
  have parsed: "parse_response (py_join newline ([] @ ?line # [])) = Inr ?df"
    by (simp add: eval_parse)
  note parse_response_empty_fourth_field [OF lines split fields, THEN conjunct2, THEN conjunct1, rule_format, OF parsed]
  then have "\<exists>df1 df2 row.
      parse_response (py_join newline []) = Inr df1 \<and>
      parse_response (py_join newline []) = Inr df2 \<and>
      [[(key_question, ascii ''Q1''), (key_summary, ascii ''s''),
        (key_coverage, ascii ''full''), (key_followup, [])]] =
        rows df1 @ row # rows df2 \<and>
      map fst row = [key_question, key_summary, key_coverage, key_followup] \<and>
      map_of row key_question = Some (ascii ''Q1'') \<and>
      map_of row key_summary = Some (ascii ''s'') \<and>
      map_of row key_coverage = Some (ascii ''full'') \<and>
      map_of row key_followup = Some []"
    by simp
  moreover from lines have "\<not> py_in newline (ascii ''Q1 | s | full |'')"
    by simp_all
  moreover from parsed have "parse_response (py_join newline [ascii ''Q1 | s | full |'']) = Inr ?df"
    by simp
  ultimately show ?thesis
    using split by (intro conjI) (simp_all add: no_followup_not_Nil)
qed

theorem parse_response_empty_fourth_field_counterexample:
  "py_split (py_strip [97, 124, 98, 124, 57343, 124]) delimiter =
     Inr [[97], [98], [57343], []] \<and>
   parse_response [97, 124, 98, 124, 57343, 124] = Inl UnicodeEncodeError"
  by (simp add: eval_parse)

section \<open>The report as a whole\<close>

lemma map_of_record_of_line:
  "map_of (record_of_line l) key_question = Some (line_fields l ! 0)"
  "map_of (record_of_line l) key_summary = Some (line_fields l ! 1)"
  "map_of (record_of_line l) key_coverage = Some (line_fields l ! 2)"
  "map_of (record_of_line l) key_followup =
     Some (if 4 \<le> length (line_fields l) then line_fields l ! 3 else no_followup)"
  unfolding record_of_line_def by (rule map_of_row)+

text \<open>
  C8, amended. For every reply: when a record kept from its valid lines holds a surrogate
  code point the parser raises UnicodeEncodeError; otherwise it returns a table whose
  rows are the records of the valid lines of the reply, in the order of the lines, so
  that the number of rows is the number of valid lines and the values under question,
  summary, coverage and follow-up, row by row, are the first three fields of each valid
  line and its fourth field or the placeholder. A line is valid when it is non-empty
  after trimming and holds at least two delimiters, which is exactly when its trimmed
  text splits into at least three fields. The empty reply gives the table without
  rows. The counterexample is a reply whose only valid line holds a surrogate.
\<close>

theorem parse_response_valid_lines:
  "(\<exists>ls. py_split r newline = Inr ls \<and>
      (if list_ex row_has_surrogate (kept_rows ls)
       then parse_response r = Inl UnicodeEncodeError
       else \<exists>df. parse_response r = Inr df \<and>
              rows df = kept_rows ls \<and>
              length (rows df) = length (filter valid_line ls) \<and>
              map (\<lambda>row. map_of row key_question) (rows df) =
                map (\<lambda>l. Some (line_fields l ! 0)) (filter valid_line ls) \<and>
              map (\<lambda>row. map_of row key_summary) (rows df) =
                map (\<lambda>l. Some (line_fields l ! 1)) (filter valid_line ls) \<and>
              map (\<lambda>row. map_of row key_coverage) (rows df) =
                map (\<lambda>l. Some (line_fields l ! 2)) (filter valid_line ls) \<and>
              map (\<lambda>row. map_of row key_followup) (rows df) =
                map (\<lambda>l. Some (if 4 \<le> length (line_fields l) then line_fields l ! 3
                                else no_followup)) (filter valid_line ls))) \<and>
   (valid_line l \<longleftrightarrow> (\<exists>fs. py_split (py_strip l) delimiter = Inr fs \<and> 3 \<le> length fs)) \<and>
   parse_response [] = Inr \<lparr>columns = [], rows = []\<rparr>"
proof (intro conjI)
  let ?ls = "split_fields newline r"
  have split: "py_split r newline = Inr ?ls"
    by (simp add: py_split_def newline_def)
  have "parse_response r = Inl UnicodeEncodeError" if "list_ex row_has_surrogate (kept_rows ?ls)"
    using that by (simp add: parse_response_lines DataFrame_def)
  moreover have "\<exists>df. parse_response r = Inr df \<and>
              rows df = kept_rows ?ls \<and>
              length (rows df) = length (filter valid_line ?ls) \<and>
              map (\<lambda>row. map_of row key_question) (rows df) =
                map (\<lambda>l. Some (line_fields l ! 0)) (filter valid_line ?ls) \<and>
              map (\<lambda>row. map_of row key_summary) (rows df) =
                map (\<lambda>l. Some (line_fields l ! 1)) (filter valid_line ?ls) \<and>
              map (\<lambda>row. map_of row key_coverage) (rows df) =
                map (\<lambda>l. Some (line_fields l ! 2)) (filter valid_line ?ls) \<and>
              map (\<lambda>row. map_of row key_followup) (rows df) =
                map (\<lambda>l. Some (if 4 \<le> length (line_fields l) then line_fields l ! 3
                                else no_followup)) (filter valid_line ?ls)"
    if "\<not> list_ex row_has_surrogate (kept_rows ?ls)"
    using that
    by (simp add: parse_response_lines DataFrame_def kept_rows_def map_of_record_of_line
        comp_def)
  ultimately show "\<exists>ls. py_split r newline = Inr ls \<and>
      (if list_ex row_has_surrogate (kept_rows ls)
       then parse_response r = Inl UnicodeEncodeError
       else \<exists>df. parse_response r = Inr df \<and>
              rows df = kept_rows ls \<and>
              length (rows df) = length (filter valid_line ls) \<and>
              map (\<lambda>row. map_of row key_question) (rows df) =
                map (\<lambda>l. Some (line_fields l ! 0)) (filter valid_line ls) \<and>
              map (\<lambda>row. map_of row key_summary) (rows df) =
                map (\<lambda>l. Some (line_fields l ! 1)) (filter valid_line ls) \<and>
              map (\<lambda>row. map_of row key_coverage) (rows df) =
                map (\<lambda>l. Some (line_fields l ! 2)) (filter valid_line ls) \<and>
              map (\<lambda>row. map_of row key_followup) (rows df) =
                map (\<lambda>l. Some (if 4 \<le> length (line_fields l) then line_fields l ! 3
                                else no_followup)) (filter valid_line ls))"
    using split by (intro exI [of _ ?ls] conjI) simp_all
  show "valid_line l \<longleftrightarrow> (\<exists>fs. py_split (py_strip l) delimiter = Inr fs \<and> 3 \<le> length fs)"
    by (simp add: valid_line_iff line_fields_def py_split_def delimiter_def)
  show "parse_response [] = Inr \<lparr>columns = [], rows = []\<rparr>"
    by (simp add: parse_response_lines newline_def kept_rows_Nil DataFrame_def)
qed

theorem parse_response_valid_lines_witness:
  "py_split (py_join newline [ascii ''intro'', ascii ''Q1 | s | full'', ascii ''Q2 | t'',
      ascii ''Q3 | u | part | more'']) newline =
     Inr [ascii ''intro'', ascii ''Q1 | s | full'', ascii ''Q2 | t'',
          ascii ''Q3 | u | part | more''] \<and>
   filter valid_line [ascii ''intro'', ascii ''Q1 | s | full'', ascii ''Q2 | t'',
      ascii ''Q3 | u | part | more''] = [ascii ''Q1 | s | full'', ascii ''Q3 | u | part | more''] \<and>
   parse_response (py_join newline [ascii ''intro'', ascii ''Q1 | s | full'', ascii ''Q2 | t'',
      ascii ''Q3 | u | part | more'']) =
     Inr \<lparr>columns = [key_question, key_summary, key_coverage, key_followup],
          rows = [[(key_question, ascii ''Q1''), (key_summary, ascii ''s''),
                   (key_coverage, ascii ''full''), (key_followup, no_followup)],
                  [(key_question, ascii ''Q3''), (key_summary, ascii ''u''),
                   (key_coverage, ascii ''part''), (key_followup, ascii ''more'')]]\<rparr> \<and>
   valid_line (ascii ''Q1 | s | full'') \<and> \<not> valid_line (ascii ''Q2 | t'')"
proof -
  let ?r = "py_join newline [ascii ''intro'', ascii ''Q1 | s | full'', ascii ''Q2 | t'',
      ascii ''Q3 | u | part | more'']"
  let ?ls = "[ascii ''intro'', ascii ''Q1 | s | full'', ascii ''Q2 | t'',
      ascii ''Q3 | u | part | more'']"
  have split: "py_split ?r newline = Inr ?ls"
    by (simp add: py_split_def newline_def ascii_def)
  have valid: "filter valid_line ?ls = [ascii ''Q1 | s | full'', ascii ''Q3 | u | part | more'']"
    by (simp add: valid_line_def ascii_def py_strip_def isspace_def)
  have parsed: "parse_response ?r =
     Inr \<lparr>columns = [key_question, key_summary, key_coverage, key_followup],
          rows = [[(key_question, ascii ''Q1''), (key_summary, ascii ''s''),
                   (key_coverage, ascii ''full''), (key_followup, no_followup)],
                  [(key_question, ascii ''Q3''), (key_summary, ascii ''u''),
                   (key_coverage, ascii ''part''), (key_followup, ascii ''more'')]]\<rparr>"
    by (simp add: eval_parse)
  from parse_response_valid_lines [of ?r "ascii ''Q1 | s | full''", THEN conjunct2, THEN conjunct1]
  have v1: "valid_line (ascii ''Q1 | s | full'')"
    by (simp add: ascii_def py_split_def delimiter_def py_strip_def isspace_def)
  from parse_response_valid_lines [of ?r "ascii ''Q2 | t''", THEN conjunct2, THEN conjunct1]
  have v2: "\<not> valid_line (ascii ''Q2 | t'')"
    by (simp add: ascii_def py_split_def delimiter_def py_strip_def isspace_def)
  from split valid parsed v1 v2 show ?thesis
    by (intro conjI)
qed

theorem parse_response_valid_lines_counterexample:
  "py_split [120, 10, 97, 124, 98, 124, 56320] newline = Inr [[120], [97, 124, 98, 124, 56320]] \<and>
   valid_line [97, 124, 98, 124, 56320] \<and>
   parse_response [120, 10, 97, 124, 98, 124, 56320] = Inl UnicodeEncodeError"
  by (simp add: eval_parse valid_line_def)

section \<open>Which strings are parsed\<close>

lemma set_split_fields: "f \<in> set (split_fields sep s) \<Longrightarrow> set f \<subseteq> set s"
proof (induction sep s arbitrary: f rule: split_fields.induct)
  case (1 sep)
  then show ?case by simp
next
  case (2 sep c cs)
  show ?case
  proof (cases "sep \<noteq> [] \<and> startswith (c # cs) sep")
    case True
    with 2(3) have "f = [] \<or> f \<in> set (split_fields sep (drop (length sep) (c # cs)))"
      by (simp del: drop.simps)
    then show ?thesis
    proof
      assume "f = []"
      then show ?thesis by simp
    next
      assume "f \<in> set (split_fields sep (drop (length sep) (c # cs)))"
      then have "set f \<subseteq> set (drop (length sep) (c # cs))"
        by (rule 2(1) [OF True])
      also have "\<dots> \<subseteq> set (c # cs)"
        by (rule set_drop_subset)
      finally show ?thesis .
    qed
  next
    case False
    obtain a list where eq: "split_fields sep cs = a # list"
      using split_fields_not_Nil [of sep cs] by (cases "split_fields sep cs") auto
    with False 2(3) have "f = c # a \<or> f \<in> set list"
      by auto
    moreover have "set a \<subseteq> set cs" and "\<forall>g\<in>set list. set g \<subseteq> set cs"
      using 2(2) [OF False] eq by simp_all
    ultimately show ?thesis
      by auto
  qed
qed

lemma set_py_strip: "set (py_strip s) \<subseteq> set s"
  by (auto simp: py_strip_def dest!: set_dropWhileD)

lemma has_surrogate_subset: "set t \<subseteq> set s \<Longrightarrow> has_surrogate t \<Longrightarrow> has_surrogate s"
  by (auto simp: has_surrogate_def list_ex_iff)

lemma has_surrogate_line_field:
  assumes "i < length (line_fields l)" and "has_surrogate (line_fields l ! i)"
  shows "has_surrogate l"
proof -
  from assms(1) have "line_fields l ! i \<in> set (line_fields l)"
    by simp
  then obtain f where "f \<in> set (split_fields delimiter (py_strip l))"
    and "line_fields l ! i = py_strip f"
    by (auto simp: line_fields_def)
  then have "set (line_fields l ! i) \<subseteq> set l"
    using set_py_strip [of f] set_split_fields [of f delimiter "py_strip l"] set_py_strip [of l]
    by auto
  from this assms(2) show ?thesis
    by (rule has_surrogate_subset)
qed

lemma row_has_surrogate_record:
  assumes "valid_line l" and "row_has_surrogate (record_of_line l)"
  shows "has_surrogate l"
proof -
  from assms(1) have len: "3 \<le> length (line_fields l)"
    by (simp add: valid_line_iff)
  from assms(2) consider "has_surrogate (line_fields l ! 0)" | "has_surrogate (line_fields l ! 1)"
    | "has_surrogate (line_fields l ! 2)"
    | "4 \<le> length (line_fields l)" "has_surrogate (line_fields l ! 3)"
    by (auto simp: record_of_line_def row_has_surrogate_def not_has_surrogate_no_followup
        split: if_splits)
  then show ?thesis
  proof cases
    case 1
    with len show ?thesis
      by (intro has_surrogate_line_field [of 0 l]) auto
  next
    case 2
    with len show ?thesis
      by (intro has_surrogate_line_field [of 1 l]) simp_all
  next
    case 3
    with len show ?thesis
      by (intro has_surrogate_line_field [of 2 l]) simp_all
  next
    case 4
    then show ?thesis
      by (intro has_surrogate_line_field [of 3 l]) simp_all
  qed
qed

lemma kept_rows_surrogate:
  assumes "list_ex row_has_surrogate (kept_rows (split_fields newline r))"
  shows "has_surrogate r"
proof -
  from assms obtain l where "l \<in> set (split_fields newline r)" "valid_line l"
    "row_has_surrogate (record_of_line l)"
    by (auto simp: kept_rows_def list_ex_iff)
  then have "has_surrogate l" "set l \<subseteq> set r"
    by (auto intro: row_has_surrogate_record dest: set_split_fields)
  then show ?thesis
    by (auto intro: has_surrogate_subset)
qed

text \<open>
  C10, amended. The outline splitter returns a result on every string. The response
  parser returns a table on every string that holds no surrogate code point, the empty
  and the whitespace-only string among them; on the others it returns a table unless a
  record kept from a valid line holds a surrogate, and then it raises
  UnicodeEncodeError. The counterexample is a three-field line that begins with a
  surrogate.
\<close>

theorem parser_and_splitter_total:
  "(\<exists>questions. extract_questions_from_outline text = Inr questions) \<and>
   (\<exists>ls. py_split response newline = Inr ls \<and>
      (if list_ex row_has_surrogate (kept_rows ls)
       then parse_response response = Inl UnicodeEncodeError
       else \<exists>df. parse_response response = Inr df)) \<and>
   (\<not> has_surrogate response \<longrightarrow> (\<exists>df. parse_response response = Inr df))"
proof (intro conjI)
  show "\<exists>questions. extract_questions_from_outline text = Inr questions"
    by (simp add: extract_questions_from_outline_def py_split_def newline_def and_then_def)
  show "\<exists>ls. py_split response newline = Inr ls \<and>
      (if list_ex row_has_surrogate (kept_rows ls)
       then parse_response response = Inl UnicodeEncodeError
       else \<exists>df. parse_response response = Inr df)"
    by (simp add: py_split_def newline_def parse_response_lines DataFrame_def)
  show "\<not> has_surrogate response \<longrightarrow> (\<exists>df. parse_response response = Inr df)"
    using kept_rows_surrogate [of response]
    by (auto simp: parse_response_lines DataFrame_Inr_iff)
qed

theorem parser_and_splitter_total_witness:
  "\<not> has_surrogate (ascii ''  |  '') \<and>
   parse_response (ascii ''  |  '') = Inr \<lparr>columns = [], rows = []\<rparr> \<and>
   extract_questions_from_outline (ascii ''  |  '') = Inr [ascii ''|'']"
proof -
  have clean: "\<not> has_surrogate (ascii ''  |  '')"
    by (simp add: has_surrogate_def is_surrogate_def ascii_def)
  from parser_and_splitter_total [of "ascii ''  |  ''" "ascii ''  |  ''"] clean
  have "\<exists>df. parse_response (ascii ''  |  '') = Inr df"
    by blast
  then have "parse_response (ascii ''  |  '') = Inr \<lparr>columns = [], rows = []\<rparr>"
    by (simp add: eval_parse)
  moreover have "extract_questions_from_outline (ascii ''  |  '') = Inr [ascii ''|'']"
    by (simp add: extract_questions_from_outline_def eval_parse)
  ultimately show ?thesis
    using clean by (intro conjI)
qed

theorem parser_and_splitter_total_counterexample:
  "parse_response [55296, 124, 124] = Inl UnicodeEncodeError"
  by (simp add: eval_parse)

section \<open>The outline splitter on clean input\<close>

text \<open>
  C7. For every list of questions that are non-empty and hold no whitespace character,
  the outline splitter applied to their newline-join returns that list.
\<close>

theorem split_join_clean_questions:
  assumes clean: "\<forall>q\<in>set questions. q \<noteq> [] \<and> (\<forall>c\<in>set q. \<not> isspace c)"
  shows "extract_questions_from_outline (py_join newline questions) = Inr questions"
proof (cases "questions = []")
  case True
  then show ?thesis
    by (simp add: extract_questions_from_outline_def py_split_def newline_def and_then_def
        py_strip_def)
next
  case False
  have "isspace 10"
    by (simp add: isspace_def)
  with clean have "\<forall>q\<in>set questions. 10 \<notin> set q"
    by blast
  with False have lines: "split_fields newline (py_join newline questions) = questions"
    by (simp add: newline_def split_fields_join)
  from clean have strip: "\<forall>q\<in>set questions. py_strip q = q"
    by (simp add: py_strip_clean)
  with clean have "filter (\<lambda>line. py_strip line \<noteq> []) questions = questions"
    by (simp add: filter_id_conv)
  moreover from strip have "map py_strip questions = questions"
    by (simp add: map_idI)
  ultimately show ?thesis
    by (simp add: extract_questions_from_outline_def py_split_def newline_def and_then_def
        lines [unfolded newline_def])
qed

theorem split_join_clean_questions_witness:
  "ascii ''How?'' \<noteq> [] \<and> ascii ''Why?'' \<noteq> [] \<and>
   list_all (\<lambda>c. \<not> isspace c) (ascii ''How?'') \<and> list_all (\<lambda>c. \<not> isspace c) (ascii ''Why?'') \<and>
   extract_questions_from_outline (py_join newline [ascii ''How?'', ascii ''Why?'']) =
     Inr [ascii ''How?'', ascii ''Why?'']"
proof -
  have clean: "\<forall>q\<in>set [ascii ''How?'', ascii ''Why?'']. q \<noteq> [] \<and> (\<forall>c\<in>set q. \<not> isspace c)"
    by (simp add: ascii_def isspace_def)
  from split_join_clean_questions [OF clean] clean show ?thesis
    by (simp add: list_all_iff)
qed

section \<open>The fields of a record\<close>

text \<open>
  C4, amended. Every row of the table the parser returns is a dict with exactly the four
  keys question, summary, coverage and follow-up, in this order, so no field is ever
  absent; each value is a string that may be empty. The coverage text itself can be
  empty: the counterexample parses a line whose third field is empty.
\<close>

theorem parse_response_rows_have_all_fields:
  assumes "parse_response r = Inr df" and "row \<in> set (rows df)"
  shows "\<exists>q s c f. row = [(key_question, q), (key_summary, s), (key_coverage, c), (key_followup, f)]"
proof -
  from assms(1) have "rows df = kept_rows (split_fields newline r)"
    by (simp add: parse_response_lines DataFrame_Inr)
  with assms(2) obtain l where "row = record_of_line l"
    by (auto simp: kept_rows_def)
  then show ?thesis
    by (simp add: record_of_line_def)
qed

theorem parse_response_rows_have_all_fields_witness:
  "parse_response (ascii ''a|b||d'') =
     Inr \<lparr>columns = [key_question, key_summary, key_coverage, key_followup],
          rows = [mk_row [97] [98] [] [100]]\<rparr> \<and>
   mk_row [97] [98] [] [100] \<in>
     set (rows \<lparr>columns = [key_question, key_summary, key_coverage, key_followup],
                rows = [mk_row [97] [98] [] [100]]\<rparr>) \<and>
   (\<exists>q s c f. mk_row [97] [98] [] [100] =
      [(key_question, q), (key_summary, s), (key_coverage, c), (key_followup, f)])"
proof -
  let ?df = "\<lparr>columns = [key_question, key_summary, key_coverage, key_followup],
          rows = [mk_row [97] [98] [] [100]]\<rparr>"
  have parse: "parse_response (ascii ''a|b||d'') = Inr ?df"
    by (simp add: eval_parse)
  have row: "mk_row [97] [98] [] [100] \<in> set (rows ?df)"
    by simp
  from parse row parse_response_rows_have_all_fields [OF parse row] show ?thesis
    by (intro conjI)
qed

theorem empty_coverage_counterexample:
  "parse_response (ascii ''a|b||d'') =
     Inr \<lparr>columns = [key_question, key_summary, key_coverage, key_followup],
          rows = [mk_row [97] [98] [] [100]]\<rparr> \<and>
   map_of (mk_row [97] [98] [] [100]) key_coverage = Some []"
  by (simp add: eval_parse)

section \<open>The coverage summary\<close>

lemma set_insert_key: "set (insert_key cols k) = insert k (set cols)"
  by (auto simp: insert_key_def)

lemma set_foldl_insert_key: "set (foldl insert_key cols ks) = set cols \<union> set ks"
  by (induction ks arbitrary: cols) (auto simp: set_insert_key)

lemma count_list_map_Some:
  "count_list (map f data) v = length (filter (\<lambda>row. f row = v) data)"
  by (induction data) auto

lemma series_get_value_counts: "series_get (value_counts series) v 0 = count_list series (Some v)"
  by (auto simp: series_get_def value_counts_def count_list_0_iff)

text \<open>
  On a table with at least one row the three metrics are the number of rows and the
  numbers of rows whose coverage value is exactly the full label and exactly the none
  label.
\<close>

lemma coverage_metrics_rows:
  assumes "DataFrame data = Inr df" and "data \<noteq> []"
    and "\<forall>row\<in>set data. \<exists>q s c f. row = mk_row q s c f"
  shows "coverage_metrics df =
     Inr \<lparr>total = length data,
          fullCount = length (filter (\<lambda>row. map_of row key_coverage = Some label_full) data),
          noneCount = length (filter (\<lambda>row. map_of row key_coverage = Some label_none) data)\<rparr>"
proof -
  from assms(1) have df: "df = \<lparr>columns = foldl insert_key [] (concat (map (map fst) data)),
      rows = data\<rparr>"
    by (auto simp: DataFrame_def split: if_splits)
  from assms(2,3) obtain q s c f rest where "data = mk_row q s c f # rest"
    by (cases data) auto
  then have "key_coverage \<in> set (columns df)"
    by (simp add: df set_foldl_insert_key set_insert_key mk_row_def)
  then show ?thesis
    by (simp add: coverage_metrics_def df_getitem_def and_then_def series_get_value_counts
        count_list_map_Some df)
qed

text \<open>
  C5. The summary of the empty report: a reply without any valid line parses to the table
  without rows and without columns, and reading its coverage column raises KeyError,
  so that no metric is computed for the empty report.
\<close>

theorem coverage_metrics_empty_report:
  "parse_response (ascii ''no table here'') = Inr \<lparr>columns = [], rows = []\<rparr> \<and>
   coverage_metrics \<lparr>columns = [], rows = []\<rparr> = Inl KeyError"
  by (simp add: eval_parse coverage_metrics_def df_getitem_def)

section \<open>A failed extraction does not stop the run\<close>

lemma extract_text_from_file_raises:
  assumes "reader_raises lib file e"
  shows "extract_text_from_file lib file = ([], [St_error (File_error e)])"
  using assms by (auto simp: reader_raises_def extract_text_from_file_def split: if_splits)

lemma analyze_with_deepseek_posts:
  assumes "deepseek_api_key st \<noteq> []"
  shows "\<exists>response rest. analyze_with_deepseek lib st text questions =
     (response, Requests_post (deepseek_api_key st) text questions # rest)"
  using assms
  by (auto simp: analyze_with_deepseek_def Let_def split: http_result.splits sum.splits)

lemma analyze_with_deepseek_reply:
  assumes "deepseek_api_key st \<noteq> []"
    and "requests_post lib (deepseek_api_key st) text questions = Response 200 body (Inr reply)"
  shows "analyze_with_deepseek lib st text questions =
     (Some reply, [Requests_post (deepseek_api_key st) text questions])"
  using assms by (simp add: analyze_with_deepseek_def)

lemma extract_questions_empty: "extract_questions_from_outline [] = Inr []"
  by (simp add: extract_questions_from_outline_def py_split_def newline_def and_then_def
      py_strip_def)

text \<open>
  C6, amended. Both files are uploaded and an API key is present, and the reader of the
  interview file or of the outline file raises an exception. Then for the file whose
  reader raises, one error message with the text of the exception is shown and the
  extracted text is empty (so a failed outline gives no questions). The run does not
  halt: after the messages of the two extractions the request to the model is posted
  with the extracted interview text and the questions split from the extracted outline
  text, and both are stored in the session state, whatever the model answers. When the
  model answers with status 200 and a non-empty reply that is parsed, the run ends
  without an exception, with the table stored and the session marked as processed.
\<close>

theorem submit_after_failed_extraction:
  assumes key: "deepseek_api_key st \<noteq> []"
    and failed: "reader_raises lib ifile e1 \<or> reader_raises lib ofile e2"
    and interview: "extract_text_from_file lib ifile = (itext, shown1)"
    and outline: "extract_text_from_file lib ofile = (otext, shown2)"
    and questions: "extract_questions_from_outline otext = Inr qs"
  shows "(reader_raises lib ifile e1 \<longrightarrow> itext = [] \<and> shown1 = [St_error (File_error e1)]) \<and>
         (reader_raises lib ofile e2 \<longrightarrow>
            otext = [] \<and> qs = [] \<and> shown2 = [St_error (File_error e2)]) \<and>
         (\<exists>st' rest err.
            submit lib st (Some ifile) (Some ofile) =
              (st', shown1 @ shown2 @ St_info Analysing #
                      Requests_post (deepseek_api_key st) itext qs # rest, err) \<and>
            interview_text st' = itext \<and> outline_questions st' = qs) \<and>
         (\<forall>body reply df.
            requests_post lib (deepseek_api_key st) itext qs = Response 200 body (Inr reply) \<and>
            reply \<noteq> [] \<and> parse_response reply = Inr df \<longrightarrow>
            submit lib st (Some ifile) (Some ofile) =
              (st\<lparr>interview_text := itext, outline_questions := qs, results := Some df,
                  processed := True\<rparr>,
               shown1 @ shown2 @ [St_info Analysing,
                 Requests_post (deepseek_api_key st) itext qs, St_rerun],
               None))"
proof (intro conjI allI impI)
  show "itext = []" and "shown1 = [St_error (File_error e1)]" if "reader_raises lib ifile e1"
    using that interview
    by (auto simp: reader_raises_def extract_text_from_file_def split: if_splits)
  show "otext = []" and "shown2 = [St_error (File_error e2)]" if "reader_raises lib ofile e2"
    using that outline
    by (auto simp: reader_raises_def extract_text_from_file_def split: if_splits)
  then show "qs = []" if "reader_raises lib ofile e2"
    using that questions extract_questions_empty by simp
  let ?st2 = "st\<lparr>interview_text := itext, outline_questions := qs\<rparr>"
  have key2: "deepseek_api_key ?st2 \<noteq> []"
    using key by simp
  from analyze_with_deepseek_posts [OF key2, of lib itext qs]
  obtain response rest where
    a: "analyze_with_deepseek lib ?st2 itext qs =
      (response, Requests_post (deepseek_api_key st) itext qs # rest)"
    by auto
  let ?evs = "shown1 @ shown2 @ St_info Analysing #
      Requests_post (deepseek_api_key st) itext qs # rest"
  show "\<exists>st' rest err.
      submit lib st (Some ifile) (Some ofile) =
        (st', shown1 @ shown2 @ St_info Analysing #
                Requests_post (deepseek_api_key st) itext qs # rest, err) \<and>
      interview_text st' = itext \<and> outline_questions st' = qs"
  proof (cases "\<exists>reply. response = Some reply \<and> reply \<noteq> []")
    case False
    then have "submit lib st (Some ifile) (Some ofile) = (?st2, ?evs, None)"
      using key interview outline questions a
      by (auto simp: submit_def Let_def split: option.splits)
    then show ?thesis
      by (intro exI [of _ ?st2] exI [of _ rest] exI [of _ None]) simp
  next
    case True
    then obtain reply where r: "response = Some reply" "reply \<noteq> []"
      by blast
    show ?thesis
    proof (cases "parse_response reply")
      case (Inl err)
      then have "submit lib st (Some ifile) (Some ofile) = (?st2, ?evs, Some err)"
        using key interview outline questions a r
        by (simp add: submit_def Let_def)
      then show ?thesis
        by (intro exI [of _ ?st2] exI [of _ rest] exI [of _ "Some err"]) simp
    next
      case (Inr df)
      then have "submit lib st (Some ifile) (Some ofile) =
          (?st2\<lparr>results := Some df, processed := True\<rparr>, ?evs @ [St_rerun], None)"
        using key interview outline questions a r
        by (simp add: submit_def Let_def)
      then show ?thesis
        by (intro exI [of _ "?st2\<lparr>results := Some df, processed := True\<rparr>"]
            exI [of _ "rest @ [St_rerun]"] exI [of _ None]) simp
    qed
  qed
  fix body reply df
  assume ok: "requests_post lib (deepseek_api_key st) itext qs = Response 200 body (Inr reply) \<and>
      reply \<noteq> [] \<and> parse_response reply = Inr df"
  then have "analyze_with_deepseek lib ?st2 itext qs =
      (Some reply, [Requests_post (deepseek_api_key st) itext qs])"
    using analyze_with_deepseek_reply [of ?st2 lib itext qs body reply] key by simp
  with ok show "submit lib st (Some ifile) (Some ofile) =
      (st\<lparr>interview_text := itext, outline_questions := qs, results := Some df,
          processed := True\<rparr>,
       shown1 @ shown2 @ [St_info Analysing,
         Requests_post (deepseek_api_key st) itext qs, St_rerun],
       None)"
    using key interview outline questions
    by (simp add: submit_def Let_def)
qed

theorem submit_after_failed_extraction_counterexample:
  "submit failing_pdf_libs (new_session (ascii ''sk-1''))
     (Some \<lparr>name = ascii ''talk.pdf'', getvalue = []\<rparr>)
     (Some \<lparr>name = ascii ''outline.txt'', getvalue = []\<rparr>) =
   (\<lparr>processed = True,
     results = Some \<lparr>columns = [key_question, key_summary, key_coverage, key_followup],
                     rows = [mk_row (ascii ''Q1'') (ascii ''s'') (ascii ''c'') (ascii ''f'')]\<rparr>,
     interview_text = [], outline_questions = [ascii ''Q1''],
     deepseek_api_key = ascii ''sk-1''\<rparr>,
    [St_error (File_error (ascii ''No /Root object'')), St_info Analysing,
     Requests_post (ascii ''sk-1'') [] [ascii ''Q1''], St_rerun],
    None)"
  by (simp add: submit_def extract_text_from_file_def analyze_with_deepseek_def endswith_def
      failing_pdf_libs_def new_session_def extract_questions_from_outline_def eval_parse)

theorem submit_after_failed_extraction_witness:
  "deepseek_api_key (new_session (ascii ''sk-1'')) \<noteq> [] \<and>
   reader_raises failing_pdf_libs \<lparr>name = ascii ''talk.pdf'', getvalue = []\<rparr>
     (ascii ''No /Root object'') \<and>
   extract_text_from_file failing_pdf_libs \<lparr>name = ascii ''talk.pdf'', getvalue = []\<rparr> =
     ([], [St_error (File_error (ascii ''No /Root object''))]) \<and>
   extract_text_from_file failing_pdf_libs \<lparr>name = ascii ''outline.txt'', getvalue = []\<rparr> =
     (ascii ''Q1'', []) \<and>
   extract_questions_from_outline (ascii ''Q1'') = Inr [ascii ''Q1''] \<and>
   requests_post failing_pdf_libs (ascii ''sk-1'') [] [ascii ''Q1''] =
     Response 200 [] (Inr (ascii ''Q1 | s | c | f'')) \<and>
   parse_response (ascii ''Q1 | s | c | f'') =
     Inr \<lparr>columns = [key_question, key_summary, key_coverage, key_followup],
          rows = [mk_row (ascii ''Q1'') (ascii ''s'') (ascii ''c'') (ascii ''f'')]\<rparr> \<and>
   submit failing_pdf_libs (new_session (ascii ''sk-1''))
     (Some \<lparr>name = ascii ''talk.pdf'', getvalue = []\<rparr>)
     (Some \<lparr>name = ascii ''outline.txt'', getvalue = []\<rparr>) =
   (\<lparr>processed = True,
     results = Some \<lparr>columns = [key_question, key_summary, key_coverage, key_followup],
                     rows = [mk_row (ascii ''Q1'') (ascii ''s'') (ascii ''c'') (ascii ''f'')]\<rparr>,
     interview_text = [], outline_questions = [ascii ''Q1''],
     deepseek_api_key = ascii ''sk-1''\<rparr>,
    [St_error (File_error (ascii ''No /Root object'')), St_info Analysing,
     Requests_post (ascii ''sk-1'') [] [ascii ''Q1''], St_rerun],
    None)"
proof -
  let ?ifile = "\<lparr>name = ascii ''talk.pdf'', getvalue = []\<rparr>"
  let ?ofile = "\<lparr>name = ascii ''outline.txt'', getvalue = []\<rparr>"
  let ?st = "new_session (ascii ''sk-1'')"
  let ?df = "\<lparr>columns = [key_question, key_summary, key_coverage, key_followup],
          rows = [mk_row (ascii ''Q1'') (ascii ''s'') (ascii ''c'') (ascii ''f'')]\<rparr>"
  have key: "deepseek_api_key ?st \<noteq> []"
    by (simp add: new_session_def ascii_def)
  have key_eq: "deepseek_api_key ?st = ascii ''sk-1''"
    by (simp add: new_session_def)
  have raises: "reader_raises failing_pdf_libs ?ifile (ascii ''No /Root object'')"
    by (simp add: reader_raises_def endswith_def failing_pdf_libs_def ascii_def)
  then have failed: "reader_raises failing_pdf_libs ?ifile (ascii ''No /Root object'') \<or>
      reader_raises failing_pdf_libs ?ofile []"
    by simp
  have interview: "extract_text_from_file failing_pdf_libs ?ifile =
      ([], [St_error (File_error (ascii ''No /Root object''))])"
    by (simp add: extract_text_from_file_def endswith_def failing_pdf_libs_def ascii_def)
  have outline: "extract_text_from_file failing_pdf_libs ?ofile = (ascii ''Q1'', [])"
    by (simp add: extract_text_from_file_def endswith_def failing_pdf_libs_def ascii_def)
  have questions: "extract_questions_from_outline (ascii ''Q1'') = Inr [ascii ''Q1'']"
    by (simp add: extract_questions_from_outline_def eval_parse)
  have post: "requests_post failing_pdf_libs (ascii ''sk-1'') [] [ascii ''Q1''] =
      Response 200 [] (Inr (ascii ''Q1 | s | c | f''))"
    by (simp add: failing_pdf_libs_def)
  have reply: "ascii ''Q1 | s | c | f'' \<noteq> []"
    by (simp add: ascii_def)
  have parsed: "parse_response (ascii ''Q1 | s | c | f'') = Inr ?df"
    by (simp add: eval_parse)
  from post have post': "requests_post failing_pdf_libs (deepseek_api_key ?st) []
      [ascii ''Q1''] = Response 200 [] (Inr (ascii ''Q1 | s | c | f''))"
    by (simp only: key_eq)
  note submit_after_failed_extraction [OF key failed interview outline questions,
      THEN conjunct2, THEN conjunct2, THEN conjunct2, rule_format,
      OF conjI [OF post' conjI [OF reply parsed]]]
  then have "submit failing_pdf_libs ?st (Some ?ifile) (Some ?ofile) =
   (\<lparr>processed = True, results = Some ?df,
     interview_text = [], outline_questions = [ascii ''Q1''],
     deepseek_api_key = ascii ''sk-1''\<rparr>,
    [St_error (File_error (ascii ''No /Root object'')), St_info Analysing,
     Requests_post (ascii ''sk-1'') [] [ascii ''Q1''], St_rerun],
    None)"
    by (simp add: new_session_def)
  with key raises interview outline questions post parsed show ?thesis
    by (intro conjI)
qed

end
